theory Spec2Isabelle
  imports Complex_Main "HOL-Library.Char_ord" "HOL-Library.List_Lexorder"
begin

section \<open>Restaurant ordering application: a model of main.py\<close>

text \<open>
  The request handlers of \<^verbatim>\<open>main.py\<close> are modelled as functions from the
  database, the caller's session and the request's arguments to either an unhandled
  fault or a response together with the committed database. An unhandled exception
  leaves the database as it was: every handler works in one unit of work that is
  closed without a commit when the handler raises.

  Boundaries of the model. Text is ASCII: \<^verbatim>\<open>int\<close> and \<^verbatim>\<open>lower\<close> are modelled
  on ASCII characters. Integers are Python's unbounded integers; the interpreter's
  optional limit on the number of digits of an integer literal and the storage's 64-bit
  integer range are not modelled. The \<^verbatim>\<open>Float\<close> columns are exact real numbers:
  rounding, infinities and NaN are not modelled. Uploaded bytes and the files of the
  image store are not modelled, only the path that \<^verbatim>\<open>save_image\<close> returns.
\<close>

subsection \<open>Python strings and \<^verbatim>\<open>int\<close>\<close>

definition startswith :: "string \<Rightarrow> string \<Rightarrow> bool" where
  "startswith s p = (take (length p) s = p)"

text \<open>\<^verbatim>\<open>s.split(sep)\<close> for a separator of one character.\<close>

fun split :: "string \<Rightarrow> char \<Rightarrow> string list" where
  "split [] sep = [[]]"
| "split (c # cs) sep =
     (if c = sep then [] # split cs sep
      else (case split cs sep of
              [] \<Rightarrow> [[c]]
            | p # ps \<Rightarrow> (c # p) # ps))"

text \<open>\<^verbatim>\<open>xs[i]\<close> for a non-negative index: None stands for IndexError.\<close>

fun index :: "'a list \<Rightarrow> nat \<Rightarrow> 'a option" where
  "index [] i = None"
| "index (x # xs) 0 = Some x"
| "index (x # xs) (Suc i) = index xs i"

definition is_space :: "char \<Rightarrow> bool" where
  "is_space c = (c \<in> set [CHR 0x09, CHR 0x0A, CHR 0x0B, CHR 0x0C, CHR 0x0D, CHR 0x20])"

definition is_digit :: "char \<Rightarrow> bool" where
  "is_digit c = (48 \<le> (of_char c :: nat) \<and> (of_char c :: nat) \<le> 57)"

definition digit_value :: "char \<Rightarrow> int" where
  "digit_value c = int (of_char c) - 48"

definition strip :: "string \<Rightarrow> string" where
  "strip s = rev (dropWhile is_space (rev (dropWhile is_space s)))"

text \<open>
  The digits of a decimal literal after its first digit: digits, with single
  underscores allowed between two digits.
\<close>

fun digits :: "int \<Rightarrow> string \<Rightarrow> int option" where
  "digits acc [] = Some acc"
| "digits acc [c] = (if is_digit c then Some (acc * 10 + digit_value c) else None)"
| "digits acc (c # d # ds) =
     (if is_digit c then digits (acc * 10 + digit_value c) (d # ds)
      else if c = CHR ''_'' \<and> is_digit d then digits (acc * 10 + digit_value d) ds
      else None)"

definition unsigned :: "string \<Rightarrow> int option" where
  "unsigned s =
     (case s of
        [] \<Rightarrow> None
      | c # cs \<Rightarrow> if is_digit c then digits (digit_value c) cs else None)"

text \<open>
  \<^verbatim>\<open>int(s)\<close> for a string: surrounding white space is dropped, one sign is
  allowed, the rest is a decimal literal. None stands for ValueError.
\<close>

definition py_int :: "string \<Rightarrow> int option" where
  "py_int s =
     (case strip s of
        [] \<Rightarrow> None
      | c # cs \<Rightarrow>
          if c = CHR ''-'' then map_option uminus (unsigned cs)
          else if c = CHR ''+'' then unsigned cs
          else unsigned (c # cs))"

text \<open>\<^verbatim>\<open>s.lower()\<close> on ASCII text.\<close>

definition lower_char :: "char \<Rightarrow> char" where
  "lower_char c =
     (if 65 \<le> (of_char c :: nat) \<and> (of_char c :: nat) \<le> 90
      then char_of (of_char c + (32 :: nat)) else c)"

definition lower :: "string \<Rightarrow> string" where
  "lower s = map lower_char s"

subsection \<open>Data model\<close>

text \<open>
  One record per mapped class; the primary key \<^verbatim>\<open>id\<close> of each class carries the
  class's initial, since a record field is a constant of the theory. A nullable column
  is an option. The foreign keys \<^verbatim>\<open>Order.user_id\<close> and
  \<^verbatim>\<open>OrderItem.menu_item_id\<close> are written as NULL by a delete of their parent
  (see \<open>delete_user\<close> and \<open>delete_menu_item\<close>).
\<close>

record user =
  u_id :: int
  username :: string
  password :: string
  is_restaurant :: bool

record menu_item =
  m_id :: int
  name :: string
  price :: real
  description :: "string option"
  image_path :: "string option"

record order =
  o_id :: int
  user_id :: "int option"
  order_date :: string
  total_price :: real

record order_item =
  oi_id :: int
  order_id :: int
  menu_item_id :: "int option"
  quantity :: int

record menu_setting =
  ms_id :: int
  full_menu_image :: "string option"

record database =
  users :: "user list"
  menu_items :: "menu_item list"
  orders :: "order list"
  order_items :: "order_item list"
  menu_settings :: "menu_setting list"

definition empty_db :: database where
  "empty_db = \<lparr>users = [], menu_items = [], orders = [], order_items = [], menu_settings = []\<rparr>"

text \<open>
  The value of \<^verbatim>\<open>request.session.get("auth")\<close>: None, or the user id stored
  under \<^verbatim>\<open>"user_id"\<close>.
\<close>

type_synonym session = "int option"

datatype fault = ValueError | IndexError | AttributeError | IntegrityError

text \<open>
  An integer primary key without a value is given the largest id of the table plus
  one, and 1 in an empty table.
\<close>

definition next_id :: "int list \<Rightarrow> int" where
  "next_id ids = foldr max ids 0 + 1"

subsection \<open>Queries and inserts\<close>

text \<open>\<^verbatim>\<open>db.query(C).filter(C.column == v).first()\<close>: the first matching row, or None.\<close>

definition find_user :: "database \<Rightarrow> int \<Rightarrow> user option" where
  "find_user d i = find (\<lambda>u. u_id u = i) (users d)"

definition find_user_by_name :: "database \<Rightarrow> string \<Rightarrow> user option" where
  "find_user_by_name d n = find (\<lambda>u. username u = n) (users d)"

definition find_menu_item :: "database \<Rightarrow> int \<Rightarrow> menu_item option" where
  "find_menu_item d i = find (\<lambda>m. m_id m = i) (menu_items d)"

text \<open>
  The lookup by the foreign key of an order line; a comparison with NULL selects no
  row.
\<close>

definition menu_item_of :: "database \<Rightarrow> order_item \<Rightarrow> menu_item option" where
  "menu_item_of d item =
     (case menu_item_id item of
        None \<Rightarrow> None
      | Some i \<Rightarrow> find_menu_item d i)"

text \<open>
  \<^verbatim>\<open>db.add(User(...)); db.commit()\<close>. The column \<^verbatim>\<open>username\<close> is declared
  \<^verbatim>\<open>unique=True\<close>: the insert of a username that a row already carries raises
  IntegrityError and stores nothing.
\<close>

definition insert_user :: "database \<Rightarrow> string \<Rightarrow> string \<Rightarrow> bool \<Rightarrow> fault + (user \<times> database)" where
  "insert_user d uname pw flag =
     (if uname \<in> set (map username (users d)) then Inl IntegrityError
      else
        (let u = \<lparr>u_id = next_id (map u_id (users d)), username = uname, password = pw,
                  is_restaurant = flag\<rparr>
         in Inr (u, d\<lparr>users := users d @ [u]\<rparr>)))"

definition insert_menu_item ::
  "database \<Rightarrow> string \<Rightarrow> real \<Rightarrow> string option \<Rightarrow> string option \<Rightarrow> database" where
  "insert_menu_item d n p descr img =
     d\<lparr>menu_items := menu_items d @
        [\<lparr>m_id = next_id (map m_id (menu_items d)), name = n, price = p,
          description = descr, image_path = img\<rparr>]\<rparr>"

definition insert_menu_setting :: "database \<Rightarrow> menu_setting \<times> database" where
  "insert_menu_setting d =
     (let m = \<lparr>ms_id = next_id (map ms_id (menu_settings d)), full_menu_image = None\<rparr>
      in (m, d\<lparr>menu_settings := menu_settings d @ [m]\<rparr>))"

definition insert_order :: "database \<Rightarrow> int \<Rightarrow> string \<Rightarrow> real \<Rightarrow> order \<times> database" where
  "insert_order d uid date amount =
     (let r = \<lparr>o_id = next_id (map o_id (orders d)), user_id = Some uid, order_date = date,
               total_price = amount\<rparr>
      in (r, d\<lparr>orders := orders d @ [r]\<rparr>))"

definition insert_order_item :: "database \<Rightarrow> int \<Rightarrow> int \<Rightarrow> int \<Rightarrow> database" where
  "insert_order_item d oid mid qty =
     d\<lparr>order_items := order_items d @
        [\<lparr>oi_id = next_id (map oi_id (order_items d)), order_id = oid,
          menu_item_id = Some mid, quantity = qty\<rparr>]\<rparr>"

text \<open>\<^verbatim>\<open>order_by(Order.order_date.desc())\<close>: the dates are compared as byte strings.\<close>

definition order_by_date_desc :: "order list \<Rightarrow> order list" where
  "order_by_date_desc os = rev (sort_key order_date os)"

text \<open>The relationship \<^verbatim>\<open>order.items\<close>.\<close>

definition items :: "database \<Rightarrow> order \<Rightarrow> order_item list" where
  "items d r = filter (\<lambda>i. order_id i = o_id r) (order_items d)"

subsection \<open>Start-up and helpers\<close>

definition seed_menu :: "(string \<times> real \<times> string) list" where
  "seed_menu =
     [([CHR 0xE6, CHR 0xBC, CHR 0xA2, CHR 0xE5, CHR 0xA0, CHR 0xA1], 80,
       [CHR 0xE7, CHR 0x89, CHR 0x9B, CHR 0xE8, CHR 0x82, CHR 0x89,
        CHR 0xE6, CHR 0xBC, CHR 0xA2, CHR 0xE5, CHR 0xA0, CHR 0xA1]),
      ([CHR 0xE8, CHR 0x96, CHR 0xAF, CHR 0xE6, CHR 0xA2, CHR 0x9D], 40,
       [CHR 0xE9, CHR 0x85, CHR 0xA5, CHR 0xE8, CHR 0x84, CHR 0x86,
        CHR 0xE8, CHR 0x96, CHR 0xAF, CHR 0xE6, CHR 0xA2, CHR 0x9D]),
      ([CHR 0xE5, CHR 0x8F, CHR 0xAF, CHR 0xE6, CHR 0xA8, CHR 0x82], 30,
       [CHR 0xE5, CHR 0x86, CHR 0xB0, CHR 0xE6, CHR 0xB6, CHR 0xBC,
        CHR 0xE5, CHR 0x8F, CHR 0xAF, CHR 0xE6, CHR 0xA8, CHR 0x82]),
      ([CHR 0xE6, CHR 0xB2, CHR 0x99, CHR 0xE6, CHR 0x8B, CHR 0x89], 60,
       [CHR 0xE6, CHR 0x96, CHR 0xB0, CHR 0xE9, CHR 0xAE, CHR 0xAE, CHR 0xE8, CHR 0x94,
        CHR 0xAC, CHR 0xE8, CHR 0x8F, CHR 0x9C, CHR 0xE6, CHR 0xB2, CHR 0x99, CHR 0xE6,
        CHR 0x8B, CHR 0x89])]"

fun add_all :: "database \<Rightarrow> (string \<times> real \<times> string) list \<Rightarrow> database" where
  "add_all d [] = d"
| "add_all d ((n, p, descr) # rest) = add_all (insert_menu_item d n p (Some descr) None) rest"

text \<open>
  \<^verbatim>\<open>init_db\<close>, run at every start-up: when no restaurant account is stored, the
  two seed accounts, the four seed menu items and a menu setting are added in one
  commit.
\<close>

definition init_db :: "database \<Rightarrow> fault + database" where
  "init_db d =
     (case find is_restaurant (users d) of
        Some restaurant \<Rightarrow> Inr d
      | None \<Rightarrow>
          (case insert_user d ''restaurant'' ''restaurant'' True of
             Inl e \<Rightarrow> Inl e
           | Inr (restaurant_user, d1) \<Rightarrow>
               (case insert_user d1 ''customer'' ''customer'' False of
                  Inl e \<Rightarrow> Inl e
                | Inr (customer, d2) \<Rightarrow>
                    Inr (snd (insert_menu_setting (add_all d2 seed_menu))))))"

definition get_current_user :: "database \<Rightarrow> session \<Rightarrow> user option" where
  "get_current_user d auth =
     (case auth of
        None \<Rightarrow> None
      | Some uid \<Rightarrow> find_user d uid)"

definition get_menu_settings :: "database \<Rightarrow> menu_setting \<times> database" where
  "get_menu_settings d =
     (case menu_settings d of
        [] \<Rightarrow> insert_menu_setting d
      | menu_setting # rest \<Rightarrow> (menu_setting, d))"

text \<open>
  \<^verbatim>\<open>save_image\<close>: the path built from the time stamp
  \<^verbatim>\<open>datetime.now().strftime("%Y%m%d-%H%M%S%f")\<close>, here the argument \<open>stamp\<close>.
\<close>

definition save_image :: "string \<Rightarrow> string" where
  "save_image stamp = ''/static/images/'' @ stamp @ ''.jpg''"

subsection \<open>Responses\<close>

text \<open>One entry of \<^verbatim>\<open>order.items_with_details\<close>.\<close>

record detail =
  line_name :: string
  line_price :: real
  line_quantity :: int
  subtotal :: real

text \<open>The values a template is rendered from, without the request.\<close>

datatype view =
    LoginView "string option"
  | DashboardView user "order list"
  | UsersView user "user list"
  | MenuView user "menu_item list" "string option"
  | OrdersView user "(order \<times> detail list) list"

datatype response =
    RedirectResponse string
  | TemplateResponse string view

type_synonym result = "fault + (response \<times> database)"

definition login_error :: string where
  "login_error =
     [CHR 0xE5, CHR 0xB8, CHR 0xB3, CHR 0xE8, CHR 0x99, CHR 0x9F, CHR 0xE6, CHR 0x88,
      CHR 0x96, CHR 0xE5, CHR 0xAF, CHR 0x86, CHR 0xE7, CHR 0xA2, CHR 0xBC, CHR 0xE4,
      CHR 0xB8, CHR 0x8D, CHR 0xE6, CHR 0xAD, CHR 0xA3, CHR 0xE7, CHR 0xA2, CHR 0xBA]"

subsection \<open>Authentication\<close>

definition root :: response where
  "root = TemplateResponse ''login.html'' (LoginView None)"

text \<open>The tail of \<^verbatim>\<open>login\<close>: the session is set and the caller redirected by role.\<close>

definition logged_in :: "user \<Rightarrow> database \<Rightarrow> response \<times> database \<times> session" where
  "logged_in u d =
     (if is_restaurant u then RedirectResponse ''/restaurant/dashboard''
      else RedirectResponse ''/customer/menu'',
      d, Some (u_id u))"

definition login ::
  "database \<Rightarrow> session \<Rightarrow> string \<Rightarrow> string \<Rightarrow> string option
     \<Rightarrow> fault + (response \<times> database \<times> session)" where
  "login d auth username' password' is_student =
     (let is_restaurant' = (is_student \<noteq> Some ''true'');
          found = find_user_by_name d username'
      in if found = None \<and> \<not> is_restaurant' then
           (case insert_user d username' password' False of
              Inl e \<Rightarrow> Inl e
            | Inr (u, d') \<Rightarrow> Inr (logged_in u d'))
         else
           (case found of
              None \<Rightarrow> Inr (TemplateResponse ''login.html'' (LoginView (Some login_error)), d, auth)
            | Some u \<Rightarrow>
                if password u \<noteq> password'
                then Inr (TemplateResponse ''login.html'' (LoginView (Some login_error)), d, auth)
                else Inr (logged_in u d)))"

definition logout :: "session \<Rightarrow> response \<times> session" where
  "logout auth = (RedirectResponse ''/'', None)"

subsection \<open>Restaurant administration\<close>

definition restaurant_dashboard :: "database \<Rightarrow> session \<Rightarrow> result" where
  "restaurant_dashboard d auth =
     (case get_current_user d auth of
        None \<Rightarrow> Inr (RedirectResponse ''/'', d)
      | Some u \<Rightarrow>
          if \<not> is_restaurant u then Inr (RedirectResponse ''/'', d)
          else Inr (TemplateResponse ''restaurant_dashboard.html''
                      (DashboardView u (order_by_date_desc (orders d))), d))"

definition restaurant_users :: "database \<Rightarrow> session \<Rightarrow> result" where
  "restaurant_users d auth =
     (case get_current_user d auth of
        None \<Rightarrow> Inr (RedirectResponse ''/'', d)
      | Some u \<Rightarrow>
          if \<not> is_restaurant u then Inr (RedirectResponse ''/'', d)
          else Inr (TemplateResponse ''restaurant_users.html'' (UsersView u (users d)), d))"

definition add_user :: "database \<Rightarrow> session \<Rightarrow> string \<Rightarrow> string \<Rightarrow> string \<Rightarrow> result" where
  "add_user d auth username' password' is_restaurant' =
     (case get_current_user d auth of
        None \<Rightarrow> Inr (RedirectResponse ''/'', d)
      | Some u \<Rightarrow>
          if \<not> is_restaurant u then Inr (RedirectResponse ''/'', d)
          else
            (let is_restaurant_bool = (lower is_restaurant' = ''true'')
             in case insert_user d username' password' is_restaurant_bool of
                  Inl e \<Rightarrow> Inl e
                | Inr (new_user, d') \<Rightarrow> Inr (RedirectResponse ''/restaurant/users'', d')))"

definition update_user :: "database \<Rightarrow> session \<Rightarrow> int \<Rightarrow> string \<Rightarrow> string \<Rightarrow> result" where
  "update_user d auth user_id' password' confirm_password =
     (case get_current_user d auth of
        None \<Rightarrow> Inr (RedirectResponse ''/'', d)
      | Some current_user \<Rightarrow>
          if \<not> is_restaurant current_user then Inr (RedirectResponse ''/'', d)
          else if password' \<noteq> confirm_password
          then Inr (RedirectResponse ''/restaurant/users'', d)
          else
            (case find_user d user_id' of
               None \<Rightarrow> Inr (RedirectResponse ''/restaurant/users'', d)
             | Some target_user \<Rightarrow>
                 Inr (RedirectResponse ''/restaurant/users'',
                      d\<lparr>users :=
                          map (\<lambda>r. if u_id r = u_id target_user then r\<lparr>password := password'\<rparr> else r)
                            (users d)\<rparr>)))"

text \<open>
  \<^verbatim>\<open>db.delete(db_user); db.commit()\<close>. The relationship \<^verbatim>\<open>User.orders\<close>
  has no cascade option either: the flush de-associates the user's orders, writing
  NULL to their \<^verbatim>\<open>user_id\<close>, and deletes the user's row (see
  \<open>delete_menu_item\<close>).
\<close>

definition delete_user :: "database \<Rightarrow> session \<Rightarrow> int \<Rightarrow> result" where
  "delete_user d auth user_id' =
     (case get_current_user d auth of
        None \<Rightarrow> Inr (RedirectResponse ''/'', d)
      | Some u \<Rightarrow>
          if \<not> is_restaurant u then Inr (RedirectResponse ''/'', d)
          else
            (case find_user d user_id' of
               None \<Rightarrow> Inr (RedirectResponse ''/restaurant/users'', d)
             | Some db_user \<Rightarrow>
                 Inr (RedirectResponse ''/restaurant/users'',
                      d\<lparr>users := filter (\<lambda>r. u_id r \<noteq> u_id db_user) (users d),
                        orders :=
                          map (\<lambda>r. if user_id r = Some (u_id db_user) then r\<lparr>user_id := None\<rparr> else r)
                            (orders d)\<rparr>)))"

definition restaurant_menu :: "database \<Rightarrow> session \<Rightarrow> result" where
  "restaurant_menu d auth =
     (case get_current_user d auth of
        None \<Rightarrow> Inr (RedirectResponse ''/'', d)
      | Some u \<Rightarrow>
          if \<not> is_restaurant u then Inr (RedirectResponse ''/'', d)
          else
            (case get_menu_settings d of
               (menu_settings', d') \<Rightarrow>
                 Inr (TemplateResponse ''restaurant_menu.html''
                        (MenuView u (menu_items d) (full_menu_image menu_settings')), d')))"

text \<open>
  An uploaded file is modelled by its file name; \<open>None\<close> is a request without the
  file part.
\<close>

definition add_menu_item ::
  "database \<Rightarrow> session \<Rightarrow> string \<Rightarrow> string \<Rightarrow> real \<Rightarrow> string \<Rightarrow> string option \<Rightarrow> result" where
  "add_menu_item d auth stamp name' price' description' item_image =
     (case get_current_user d auth of
        None \<Rightarrow> Inr (RedirectResponse ''/'', d)
      | Some u \<Rightarrow>
          if \<not> is_restaurant u then Inr (RedirectResponse ''/'', d)
          else
            (let image_path' =
                   (case item_image of
                      None \<Rightarrow> None
                    | Some filename \<Rightarrow> if filename \<noteq> [] then Some (save_image stamp) else None)
             in Inr (RedirectResponse ''/restaurant/menu'',
                     insert_menu_item d name' price' (Some description') image_path')))"

definition update_menu_item ::
  "database \<Rightarrow> session \<Rightarrow> int \<Rightarrow> string \<Rightarrow> real \<Rightarrow> string \<Rightarrow> result" where
  "update_menu_item d auth item_id name' price' description' =
     (case get_current_user d auth of
        None \<Rightarrow> Inr (RedirectResponse ''/'', d)
      | Some u \<Rightarrow>
          if \<not> is_restaurant u then Inr (RedirectResponse ''/'', d)
          else
            (case find_menu_item d item_id of
               None \<Rightarrow> Inr (RedirectResponse ''/restaurant/menu'', d)
             | Some item \<Rightarrow>
                 Inr (RedirectResponse ''/restaurant/menu'',
                      d\<lparr>menu_items :=
                          map (\<lambda>r. if m_id r = m_id item
                                    then r\<lparr>name := name', price := price',
                                           description := Some description'\<rparr>
                                    else r)
                            (menu_items d)\<rparr>)))"

definition upload_menu_item_image :: "database \<Rightarrow> session \<Rightarrow> string \<Rightarrow> int \<Rightarrow> string \<Rightarrow> result" where
  "upload_menu_item_image d auth stamp item_id item_image =
     (case get_current_user d auth of
        None \<Rightarrow> Inr (RedirectResponse ''/'', d)
      | Some u \<Rightarrow>
          if \<not> is_restaurant u then Inr (RedirectResponse ''/'', d)
          else
            (case find_menu_item d item_id of
               None \<Rightarrow> Inr (RedirectResponse ''/restaurant/menu'', d)
             | Some item \<Rightarrow>
                 if item_image \<noteq> [] then
                   Inr (RedirectResponse ''/restaurant/menu'',
                        d\<lparr>menu_items :=
                            map (\<lambda>r. if m_id r = m_id item
                                      then r\<lparr>image_path := Some (save_image stamp)\<rparr> else r)
                              (menu_items d)\<rparr>)
                 else Inr (RedirectResponse ''/restaurant/menu'', d)))"

definition upload_full_menu_image :: "database \<Rightarrow> session \<Rightarrow> string \<Rightarrow> string \<Rightarrow> result" where
  "upload_full_menu_image d auth stamp full_menu_image' =
     (case get_current_user d auth of
        None \<Rightarrow> Inr (RedirectResponse ''/'', d)
      | Some u \<Rightarrow>
          if \<not> is_restaurant u then Inr (RedirectResponse ''/'', d)
          else
            (case get_menu_settings d of
               (menu_settings', d') \<Rightarrow>
                 if full_menu_image' \<noteq> [] then
                   Inr (RedirectResponse ''/restaurant/menu'',
                        d'\<lparr>menu_settings :=
                             map (\<lambda>r. if ms_id r = ms_id menu_settings'
                                       then r\<lparr>full_menu_image := Some (save_image stamp)\<rparr> else r)
                               (menu_settings d')\<rparr>)
                 else Inr (RedirectResponse ''/restaurant/menu'', d')))"

text \<open>
  \<^verbatim>\<open>db.delete(item); db.commit()\<close>. The class \<^verbatim>\<open>MenuItem\<close> declares
  \<^verbatim>\<open>order_items = relationship("OrderItem", back_populates="menu_item")\<close> with no
  cascade option, and \<^verbatim>\<open>OrderItem.menu_item_id\<close> is a nullable foreign key. For
  such a one-to-many relationship the flush of a deleted parent loads the parent's
  children and de-associates them, \<^verbatim>\<open>UPDATE order_items SET menu_item_id=NULL\<close>,
  before it issues \<^verbatim>\<open>DELETE FROM menu_items\<close> for the parent's row; only a delete
  cascade or passive deletes would change that. No order line is deleted.
\<close>

definition delete_menu_item :: "database \<Rightarrow> session \<Rightarrow> int \<Rightarrow> result" where
  "delete_menu_item d auth item_id =
     (case get_current_user d auth of
        None \<Rightarrow> Inr (RedirectResponse ''/'', d)
      | Some u \<Rightarrow>
          if \<not> is_restaurant u then Inr (RedirectResponse ''/'', d)
          else
            (case find_menu_item d item_id of
               None \<Rightarrow> Inr (RedirectResponse ''/restaurant/menu'', d)
             | Some item \<Rightarrow>
                 Inr (RedirectResponse ''/restaurant/menu'',
                      d\<lparr>menu_items := filter (\<lambda>r. m_id r \<noteq> m_id item) (menu_items d),
                        order_items :=
                          map (\<lambda>r. if menu_item_id r = Some (m_id item)
                                    then r\<lparr>menu_item_id := None\<rparr> else r)
                            (order_items d)\<rparr>)))"

subsection \<open>Customer handlers\<close>

definition customer_menu :: "database \<Rightarrow> session \<Rightarrow> result" where
  "customer_menu d auth =
     (case get_current_user d auth of
        None \<Rightarrow> Inr (RedirectResponse ''/'', d)
      | Some u \<Rightarrow>
          (case get_menu_settings d of
             (menu_settings', d') \<Rightarrow>
               Inr (TemplateResponse ''customer_menu.html''
                      (MenuView u (menu_items d) (full_menu_image menu_settings')), d')))"

text \<open>
  The first loop of \<^verbatim>\<open>place_order\<close> over \<^verbatim>\<open>form_data.items()\<close>, the posted
  fields in their order, with its two accumulators. \<^verbatim>\<open>int(value)\<close> is evaluated
  for every key that starts with \<^verbatim>\<open>quantity_\<close>; the source evaluates it a second
  time for \<^verbatim>\<open>quantity\<close>, with the same result.
\<close>

fun order_lines ::
  "database \<Rightarrow> (string \<times> string) list \<Rightarrow> (menu_item \<times> int) list \<Rightarrow> real
     \<Rightarrow> fault + ((menu_item \<times> int) list \<times> real)" where
  "order_lines d [] order_items' total_price' = Inr (order_items', total_price')"
| "order_lines d ((key, val) # rest) order_items' total_price' =
     (if startswith key ''quantity_'' then
        (case py_int val of
           None \<Rightarrow> Inl ValueError
         | Some quantity' \<Rightarrow>
             if quantity' > 0 then
               (case index (split key CHR ''_'') 1 of
                  None \<Rightarrow> Inl IndexError
                | Some part \<Rightarrow>
                    (case py_int part of
                       None \<Rightarrow> Inl ValueError
                     | Some item_id \<Rightarrow>
                         (case find_menu_item d item_id of
                            None \<Rightarrow> order_lines d rest order_items' total_price'
                          | Some menu_item \<Rightarrow>
                              order_lines d rest (order_items' @ [(menu_item, quantity')])
                                (total_price' + price menu_item * of_int quantity'))))
             else order_lines d rest order_items' total_price')
      else order_lines d rest order_items' total_price')"

text \<open>The second loop: one \<^verbatim>\<open>OrderItem\<close> per collected line.\<close>

fun add_order_items :: "database \<Rightarrow> int \<Rightarrow> (menu_item \<times> int) list \<Rightarrow> database" where
  "add_order_items d oid [] = d"
| "add_order_items d oid ((item, quantity') # rest) =
     add_order_items (insert_order_item d oid (m_id item) quantity') oid rest"

text \<open>
  \<open>now\<close> is \<^verbatim>\<open>datetime.now().strftime("%Y-%m-%d %H:%M:%S")\<close>.
\<close>

definition place_order :: "database \<Rightarrow> session \<Rightarrow> string \<Rightarrow> (string \<times> string) list \<Rightarrow> result" where
  "place_order d auth now form_data =
     (case get_current_user d auth of
        None \<Rightarrow> Inr (RedirectResponse ''/'', d)
      | Some u \<Rightarrow>
          (case order_lines d form_data [] 0 of
             Inl e \<Rightarrow> Inl e
           | Inr (order_items', total_price') \<Rightarrow>
               if order_items' \<noteq> [] then
                 (case insert_order d (u_id u) now total_price' of
                    (order', d') \<Rightarrow>
                      Inr (RedirectResponse ''/customer/orders'',
                           add_order_items d' (o_id order') order_items'))
               else Inr (RedirectResponse ''/customer/menu'', d)))"

text \<open>
  The inner loop of \<^verbatim>\<open>customer_orders\<close>: the menu item of each line is looked up
  again; reading an attribute of a lookup without a row raises AttributeError.
\<close>

fun items_with_details :: "database \<Rightarrow> order_item list \<Rightarrow> fault + detail list" where
  "items_with_details d [] = Inr []"
| "items_with_details d (item # rest) =
     (case menu_item_of d item of
        None \<Rightarrow> Inl AttributeError
      | Some menu_item \<Rightarrow>
          (case items_with_details d rest of
             Inl e \<Rightarrow> Inl e
           | Inr details \<Rightarrow>
               Inr (\<lparr>line_name = name menu_item, line_price = price menu_item,
                     line_quantity = quantity item,
                     subtotal = price menu_item * of_int (quantity item)\<rparr> # details)))"

text \<open>The outer loop, over the caller's orders.\<close>

fun orders_with_details :: "database \<Rightarrow> order list \<Rightarrow> fault + (order \<times> detail list) list" where
  "orders_with_details d [] = Inr []"
| "orders_with_details d (order' # rest) =
     (case items_with_details d (items d order') of
        Inl e \<Rightarrow> Inl e
      | Inr details \<Rightarrow>
          (case orders_with_details d rest of
             Inl e \<Rightarrow> Inl e
           | Inr shown \<Rightarrow> Inr ((order', details) # shown)))"

definition customer_orders :: "database \<Rightarrow> session \<Rightarrow> result" where
  "customer_orders d auth =
     (case get_current_user d auth of
        None \<Rightarrow> Inr (RedirectResponse ''/'', d)
      | Some u \<Rightarrow>
          (case orders_with_details d
                  (order_by_date_desc (filter (\<lambda>r. user_id r = Some (u_id u)) (orders d))) of
             Inl e \<Rightarrow> Inl e
           | Inr shown \<Rightarrow>
               Inr (TemplateResponse ''customer_orders.html'' (OrdersView u shown), d)))"

text \<open>The database after a request: a fault commits nothing.\<close>

definition committed :: "database \<Rightarrow> result \<Rightarrow> database" where
  "committed d r = (case r of Inl e \<Rightarrow> d | Inr (resp, d') \<Rightarrow> d')"

subsection \<open>The application as a transition system\<close>

text \<open>One constructor per route, with the arguments the route's handler reads.\<close>

datatype request =
    Root
  | Login string string "string option"
  | Logout
  | RestaurantDashboard
  | RestaurantUsers
  | AddUser string string string
  | UpdateUser int string string
  | DeleteUser int
  | RestaurantMenu
  | AddMenuItem string real string "string option"
  | UpdateMenuItem int string real string
  | UploadMenuItemImage int string
  | UploadFullMenuImage string
  | DeleteMenuItem int
  | CustomerMenu
  | PlaceOrder "(string \<times> string) list"
  | CustomerOrders

text \<open>A handler that does not write the session leaves it as the request carried it.\<close>

definition keeping :: "session \<Rightarrow> result \<Rightarrow> fault + (response \<times> database \<times> session)" where
  "keeping auth r = (case r of Inl e \<Rightarrow> Inl e | Inr (resp, d) \<Rightarrow> Inr (resp, d, auth))"

text \<open>
  The dispatch of a request that carries the session \<open>auth\<close>, at a time whose
  formatted clock reading is \<open>now\<close>.
\<close>

fun handle ::
  "database \<Rightarrow> session \<Rightarrow> string \<Rightarrow> request \<Rightarrow> fault + (response \<times> database \<times> session)" where
  "handle d auth now Root = Inr (root, d, auth)"
| "handle d auth now (Login username' password' is_student) =
     login d auth username' password' is_student"
| "handle d auth now Logout = (case logout auth of (resp, auth') \<Rightarrow> Inr (resp, d, auth'))"
| "handle d auth now RestaurantDashboard = keeping auth (restaurant_dashboard d auth)"
| "handle d auth now RestaurantUsers = keeping auth (restaurant_users d auth)"
| "handle d auth now (AddUser username' password' is_restaurant') =
     keeping auth (add_user d auth username' password' is_restaurant')"
| "handle d auth now (UpdateUser user_id' password' confirm_password) =
     keeping auth (update_user d auth user_id' password' confirm_password)"
| "handle d auth now (DeleteUser user_id') = keeping auth (delete_user d auth user_id')"
| "handle d auth now RestaurantMenu = keeping auth (restaurant_menu d auth)"
| "handle d auth now (AddMenuItem name' price' description' item_image) =
     keeping auth (add_menu_item d auth now name' price' description' item_image)"
| "handle d auth now (UpdateMenuItem item_id name' price' description') =
     keeping auth (update_menu_item d auth item_id name' price' description')"
| "handle d auth now (UploadMenuItemImage item_id item_image) =
     keeping auth (upload_menu_item_image d auth now item_id item_image)"
| "handle d auth now (UploadFullMenuImage full_menu_image') =
     keeping auth (upload_full_menu_image d auth now full_menu_image')"
| "handle d auth now (DeleteMenuItem item_id) = keeping auth (delete_menu_item d auth item_id)"
| "handle d auth now CustomerMenu = keeping auth (customer_menu d auth)"
| "handle d auth now (PlaceOrder form_data) = keeping auth (place_order d auth now form_data)"
| "handle d auth now CustomerOrders = keeping auth (customer_orders d auth)"

text \<open>
  The session lives in a signed cookie that the client holds, so a request carries no
  session or one that an earlier response has set. A state of the application is the
  database together with the sessions issued so far.
\<close>

record world =
  store :: database
  issued :: "session list"

text \<open>
  The reachable states: the state after the first start-up, and from a reachable state
  the state after another start-up and the state after any request that carries an
  issued session and is answered. A request that faults leaves the state as it is.
\<close>

inductive reachable :: "world \<Rightarrow> bool" where
  start: "init_db empty_db = Inr d \<Longrightarrow> reachable \<lparr>store = d, issued = [None]\<rparr>"
| restart: "reachable w \<Longrightarrow> init_db (store w) = Inr d \<Longrightarrow> reachable (w\<lparr>store := d\<rparr>)"
| request:
    "reachable w \<Longrightarrow> auth \<in> set (issued w) \<Longrightarrow> handle (store w) auth now req = Inr (resp, d, auth')
       \<Longrightarrow> reachable \<lparr>store = d, issued = auth' # issued w\<rparr>"

text \<open>
  The state after a list of requests, each with the session it carries and the clock
  reading at its time. A request with a session that was never issued is not possible
  and is skipped; a request that faults changes nothing.
\<close>

fun run :: "world \<Rightarrow> (session \<times> string \<times> request) list \<Rightarrow> world" where
  "run w [] = w"
| "run w ((auth, now, req) # rest) =
     (if auth \<in> set (issued w) then
        (case handle (store w) auth now req of
           Inl e \<Rightarrow> run w rest
         | Inr (resp, d, auth') \<Rightarrow> run \<lparr>store = d, issued = auth' # issued w\<rparr> rest)
      else run w rest)"

section \<open>Notions of the specification\<close>

subsection \<open>The lines of a submission\<close>






subsection \<open>The order history\<close>

text \<open>The caller's orders as the history lists them.\<close>

definition history :: "database \<Rightarrow> user \<Rightarrow> order list" where
  "history d u = order_by_date_desc (filter (\<lambda>r. user_id r = Some (u_id u)) (orders d))"

text \<open>
  A line of the history computed from a menu item: its name and price, the stored
  quantity, and price times quantity.
\<close>

definition shown_line :: "menu_item \<Rightarrow> order_item \<Rightarrow> detail" where
  "shown_line m i =
     \<lparr>line_name = name m, line_price = price m, line_quantity = quantity i,
      subtotal = price m * of_int (quantity i)\<rparr>"

subsection \<open>Usernames\<close>

text \<open>The uniqueness that the column \<^verbatim>\<open>username\<close> declares.\<close>

definition unique_usernames :: "database \<Rightarrow> bool" where
  "unique_usernames d = distinct (map username (users d))"

subsection \<open>Sample states\<close>

text \<open>A small database: the two seed accounts, two menu items and one order of the customer.\<close>

definition example_db :: database where
  "example_db =
     \<lparr>users = [\<lparr>u_id = 1, username = ''restaurant'', password = ''restaurant'', is_restaurant = True\<rparr>,
               \<lparr>u_id = 2, username = ''customer'', password = ''customer'', is_restaurant = False\<rparr>],
      menu_items = [\<lparr>m_id = 1, name = ''burger'', price = 80, description = Some ''beef'', image_path = None\<rparr>,
                    \<lparr>m_id = 2, name = ''fries'', price = 40, description = Some ''crisp'', image_path = None\<rparr>],
      orders = [\<lparr>o_id = 1, user_id = Some 2, order_date = ''2024-01-01 10:00:00'', total_price = 160\<rparr>],
      order_items = [\<lparr>oi_id = 1, order_id = 1, menu_item_id = Some 1, quantity = 2\<rparr>],
      menu_settings = [\<lparr>ms_id = 1, full_menu_image = None\<rparr>]\<rparr>"

definition customer_row :: user where
  "customer_row = \<lparr>u_id = 2, username = ''customer'', password = ''customer'', is_restaurant = False\<rparr>"

definition restaurant_row :: user where
  "restaurant_row =
     \<lparr>u_id = 1, username = ''restaurant'', password = ''restaurant'', is_restaurant = True\<rparr>"

text \<open>The state after the first start-up, on an empty database.\<close>

definition first_start :: world where
  "first_start = \<lparr>store = (case init_db empty_db of Inl e \<Rightarrow> empty_db | Inr d \<Rightarrow> d), issued = [None]\<rparr>"

text \<open>
  The seed customer logs in and orders two of item 1; the seed restaurant account logs
  in.
\<close>

definition ordered :: world where
  "ordered =
     run first_start
       [(None, '''', Login ''customer'' ''customer'' (Some ''true'')),
        (Some 2, ''2024-01-02 09:00:00'', PlaceOrder [(''quantity_1'', ''2'')]),
        (None, '''', Login ''restaurant'' ''restaurant'' None)]"

text \<open>Then the restaurant account deletes item 1.\<close>

definition deleted :: world where
  "deleted = run ordered [(Some 1, '''', DeleteMenuItem 1)]"

text \<open>Or the restaurant account raises the price of item 1 from 80 to 100.\<close>

definition repriced :: world where
  "repriced = run ordered [(Some 1, '''', UpdateMenuItem 1 ''burger'' 100 ''beef'')]"

section \<open>Properties\<close>

subsection \<open>Auxiliary facts\<close>

lemma find_None_set: "find P xs = None \<longleftrightarrow> (\<forall>x\<in>set xs. \<not> P x)"
  by (induction xs) auto

lemma find_Some_set: "find P xs = Some x \<Longrightarrow> P x \<and> x \<in> set xs"
  by (induction xs) (auto split: if_splits)

lemma find_append_fresh:
  "\<forall>x\<in>set xs. \<not> P x \<Longrightarrow> P y \<Longrightarrow> find P (xs @ [y]) = Some y"
  by (induction xs) auto

lemma le_foldr_max: "x \<in> set ids \<Longrightarrow> x \<le> foldr max ids (0::int)"
  by (induction ids) auto

lemma next_id_fresh: "next_id ids \<notin> set ids"
  using le_foldr_max[of "next_id ids" ids] by (auto simp: next_id_def)

lemma map_detach:
  assumes "\<And>r. f (g r) = f r"
  shows "map f (map (\<lambda>r. if P r then g r else r) xs) = map f xs"
  by (induction xs) (simp_all add: assms)

subsection \<open>The sample states\<close>


lemma example_customer: "get_current_user example_db (Some 2) = Some customer_row"
  by (simp add: get_current_user_def find_user_def example_db_def customer_row_def)

lemma example_restaurant: "get_current_user example_db (Some 1) = Some restaurant_row"
  by (simp add: get_current_user_def find_user_def example_db_def restaurant_row_def)

lemma example_items:
  "find_menu_item example_db 1 =
     Some \<lparr>m_id = 1, name = ''burger'', price = 80, description = Some ''beef'', image_path = None\<rparr>"
  "find_menu_item example_db 2 =
     Some \<lparr>m_id = 2, name = ''fries'', price = 40, description = Some ''crisp'', image_path = None\<rparr>"
  "find_menu_item example_db 7 = None"
  "find_menu_item example_db 9 = None"
  by (simp_all add: find_menu_item_def example_db_def)


lemma reachable_run: "reachable w \<Longrightarrow> reachable (run w reqs)"
proof (induction reqs arbitrary: w)
  case Nil
  then show ?case by simp
next
  case (Cons r reqs)
  obtain auth now req where r: "r = (auth, now, req)" by (cases r)
  show ?case
  proof (cases "auth \<in> set (issued w)")
    case False
    with Cons show ?thesis by (simp add: r)
  next
    case True
    show ?thesis
    proof (cases "handle (store w) auth now req")
      case (Inl e)
      with True Cons show ?thesis by (simp add: r)
    next
      case (Inr a)
      obtain resp d auth' where a: "a = (resp, d, auth')" by (cases a)
      have "reachable \<lparr>store = d, issued = auth' # issued w\<rparr>"
        using Cons.prems True Inr a by (auto intro: reachable.request)
      then have "reachable (run \<lparr>store = d, issued = auth' # issued w\<rparr> reqs)"
        by (rule Cons.IH)
      with True Inr a show ?thesis by (simp add: r)
    qed
  qed
qed

lemma init_db_empty:
  "\<exists>d. init_db empty_db = Inr d"
  by (simp add: init_db_def empty_db_def insert_user_def Let_def)

lemma reachable_first_start: "reachable first_start"
proof -
  obtain d where d: "init_db empty_db = Inr d" using init_db_empty by blast
  then have "first_start = \<lparr>store = d, issued = [None]\<rparr>"
    by (simp add: first_start_def)
  with reachable.start [OF d] show ?thesis by simp
qed

lemma reachable_ordered: "reachable ordered"
  unfolding ordered_def by (rule reachable_run [OF reachable_first_start])

lemma reachable_deleted: "reachable deleted"
  unfolding deleted_def by (rule reachable_run [OF reachable_ordered])

lemma reachable_repriced: "reachable repriced"
  unfolding repriced_def by (rule reachable_run [OF reachable_ordered])

subsection \<open>Authorisation of the restaurant handlers\<close>

text \<open>
  C5. Every restaurant-administration handler (dashboard, user list, add, update and
  delete of a user, menu list, add, update, the two uploads and delete of a menu item)
  answers a request whose session resolves to no user, or to a user that is not a
  restaurant account, with a redirect to the login page and leaves the database as it
  was.
\<close>

theorem restaurant_only:
  assumes "\<forall>u. get_current_user d auth = Some u \<longrightarrow> \<not> is_restaurant u"
  shows "restaurant_dashboard d auth = Inr (RedirectResponse ''/'', d)
       \<and> restaurant_users d auth = Inr (RedirectResponse ''/'', d)
       \<and> add_user d auth username' password' is_restaurant' = Inr (RedirectResponse ''/'', d)
       \<and> update_user d auth user_id' password' confirm_password = Inr (RedirectResponse ''/'', d)
       \<and> delete_user d auth user_id' = Inr (RedirectResponse ''/'', d)
       \<and> restaurant_menu d auth = Inr (RedirectResponse ''/'', d)
       \<and> add_menu_item d auth now name' price' description' item_image = Inr (RedirectResponse ''/'', d)
       \<and> update_menu_item d auth item_id name' price' description' = Inr (RedirectResponse ''/'', d)
       \<and> upload_menu_item_image d auth now item_id item_image' = Inr (RedirectResponse ''/'', d)
       \<and> upload_full_menu_image d auth now full_menu_image' = Inr (RedirectResponse ''/'', d)
       \<and> delete_menu_item d auth item_id = Inr (RedirectResponse ''/'', d)"
proof (cases "get_current_user d auth")
  case None
  then show ?thesis
    by (simp add: restaurant_dashboard_def restaurant_users_def add_user_def update_user_def
        delete_user_def restaurant_menu_def add_menu_item_def update_menu_item_def
        upload_menu_item_image_def upload_full_menu_image_def delete_menu_item_def)
next
  case (Some u)
  with assms have "\<not> is_restaurant u" by simp
  with Some show ?thesis
    by (simp add: restaurant_dashboard_def restaurant_users_def add_user_def update_user_def
        delete_user_def restaurant_menu_def add_menu_item_def update_menu_item_def
        upload_menu_item_image_def upload_full_menu_image_def delete_menu_item_def)
qed

theorem restaurant_only_witness:
  "get_current_user example_db (Some 2) =
     Some \<lparr>u_id = 2, username = ''customer'', password = ''customer'', is_restaurant = False\<rparr>
   \<and> add_user example_db (Some 2) ''eve'' ''secret'' ''true'' = Inr (RedirectResponse ''/'', example_db)
   \<and> delete_user example_db (Some 2) 1 = Inr (RedirectResponse ''/'', example_db)
   \<and> delete_menu_item example_db (Some 2) 1 = Inr (RedirectResponse ''/'', example_db)
   \<and> restaurant_dashboard example_db None = Inr (RedirectResponse ''/'', example_db)"
proof -
  have c: "get_current_user example_db (Some 2) =
     Some \<lparr>u_id = 2, username = ''customer'', password = ''customer'', is_restaurant = False\<rparr>"
    by (simp add: get_current_user_def find_user_def example_db_def)
  have n: "get_current_user example_db None = None"
    by (simp add: get_current_user_def)
  from c have h: "\<forall>u. get_current_user example_db (Some 2) = Some u \<longrightarrow> \<not> is_restaurant u"
    by simp
  from n have h': "\<forall>u. get_current_user example_db None = Some u \<longrightarrow> \<not> is_restaurant u"
    by simp
  show ?thesis
    using c
      restaurant_only [OF h, where username' = "''eve''" and password' = "''secret''"
        and is_restaurant' = "''true''" and user_id' = 1 and item_id = 1]
      restaurant_only [OF h']
    by simp
qed

subsection \<open>Password update\<close>

text \<open>
  C6. A password update by a restaurant account whose password and confirmation differ
  redirects to the user list and leaves the whole database, and so every field of the
  target user, unchanged; no fault and no error page is returned.
\<close>

theorem update_user_mismatch:
  assumes "get_current_user d auth = Some u" and "is_restaurant u"
    and "password' \<noteq> confirm_password"
  shows "update_user d auth user_id' password' confirm_password =
           Inr (RedirectResponse ''/restaurant/users'', d)"
  using assms by (simp add: update_user_def)

theorem update_user_mismatch_witness:
  "get_current_user example_db (Some 1) =
     Some \<lparr>u_id = 1, username = ''restaurant'', password = ''restaurant'', is_restaurant = True\<rparr>
   \<and> update_user example_db (Some 1) 2 ''new'' ''nwe'' =
       Inr (RedirectResponse ''/restaurant/users'', example_db)"
proof -
  have c: "get_current_user example_db (Some 1) =
     Some \<lparr>u_id = 1, username = ''restaurant'', password = ''restaurant'', is_restaurant = True\<rparr>"
    by (simp add: get_current_user_def find_user_def example_db_def)
  show ?thesis
    using c update_user_mismatch [OF c, of "''new''" "''nwe''" 2] by simp
qed

subsection \<open>Login as sign-up\<close>

text \<open>
  C7. A login with the customer role hint and a username that no stored user carries
  appends exactly one user row with that username, that password and
  \<^verbatim>\<open>is_restaurant\<close> false, sets the session to the new row's id, which no other
  row carries and which resolves to the new user, and redirects to the customer menu.
\<close>

theorem login_signup:
  assumes "find_user_by_name d username' = None"
  shows "\<exists>new_user d'.
           login d auth username' password' (Some ''true'') =
             Inr (RedirectResponse ''/customer/menu'', d', Some (u_id new_user))
         \<and> new_user = \<lparr>u_id = next_id (map u_id (users d)), username = username',
                         password = password', is_restaurant = False\<rparr>
         \<and> d' = d\<lparr>users := users d @ [new_user]\<rparr>
         \<and> u_id new_user \<notin> set (map u_id (users d))
         \<and> get_current_user d' (Some (u_id new_user)) = Some new_user"
proof -
  let ?u = "\<lparr>u_id = next_id (map u_id (users d)), username = username',
              password = password', is_restaurant = False\<rparr>"
  from assms have absent: "username' \<notin> set (map username (users d))"
    by (auto simp: find_user_by_name_def find_None_set)
  have fresh: "\<forall>x\<in>set (users d). u_id x \<noteq> next_id (map u_id (users d))"
    using next_id_fresh [of "map u_id (users d)"] by (auto simp: image_iff)
  have "login d auth username' password' (Some ''true'') =
          Inr (RedirectResponse ''/customer/menu'', d\<lparr>users := users d @ [?u]\<rparr>, Some (u_id ?u))"
    using assms absent by (simp add: login_def insert_user_def logged_in_def Let_def)
  moreover have "get_current_user (d\<lparr>users := users d @ [?u]\<rparr>) (Some (u_id ?u)) = Some ?u"
    using fresh by (simp add: get_current_user_def find_user_def find_append_fresh)
  moreover have "u_id ?u \<notin> set (map u_id (users d))"
    using next_id_fresh [of "map u_id (users d)"] by simp
  ultimately show ?thesis by blast
qed

theorem login_signup_witness:
  "find_user_by_name example_db ''alice'' = None
   \<and> login example_db None ''alice'' ''wonder'' (Some ''true'') =
       Inr (RedirectResponse ''/customer/menu'',
            example_db\<lparr>users := users example_db @
              [\<lparr>u_id = 3, username = ''alice'', password = ''wonder'', is_restaurant = False\<rparr>]\<rparr>,
            Some 3)"
proof -
  have h: "find_user_by_name example_db ''alice'' = None"
    by (simp add: find_user_by_name_def example_db_def)
  have n: "next_id (map u_id (users example_db)) = 3"
    by (simp add: next_id_def example_db_def)
  show ?thesis
    using h login_signup [OF h, of None "''wonder''"] by (simp add: n)
qed

subsection \<open>Placing an order\<close>







lemma add_order_items_tables:
  "users (add_order_items d oid ls) = users d
   \<and> menu_items (add_order_items d oid ls) = menu_items d
   \<and> orders (add_order_items d oid ls) = orders d
   \<and> menu_settings (add_order_items d oid ls) = menu_settings d"
  by (induction d oid ls rule: add_order_items.induct) (simp_all add: insert_order_item_def)














subsection \<open>Deleting a menu item\<close>

text \<open>
  C8, as the code has it. For a restaurant account and a stored menu item, the delete
  removes the item's row whatever refers to it and deletes no order line: the order
  lines keep their ids, orders and quantities, in order; the lines that referred to
  the item have their \<^verbatim>\<open>menu_item_id\<close> set to NULL, so that no line refers to the
  deleted id any more and those lines resolve to no menu item; no other table changes.
\<close>

theorem delete_menu_item_detaches:
  assumes "get_current_user d auth = Some u" and "is_restaurant u"
    and "find_menu_item d item_id = Some item"
  shows "\<exists>d'. delete_menu_item d auth item_id = Inr (RedirectResponse ''/restaurant/menu'', d')
       \<and> find_menu_item d' item_id = None
       \<and> order_items d' =
           map (\<lambda>r. if menu_item_id r = Some item_id then r\<lparr>menu_item_id := None\<rparr> else r)
             (order_items d)
       \<and> map oi_id (order_items d') = map oi_id (order_items d)
       \<and> map order_id (order_items d') = map order_id (order_items d)
       \<and> map quantity (order_items d') = map quantity (order_items d)
       \<and> (\<forall>r\<in>set (order_items d'). menu_item_id r \<noteq> Some item_id)
       \<and> users d' = users d \<and> orders d' = orders d \<and> menu_settings d' = menu_settings d"
proof -
  let ?d' = "d\<lparr>menu_items := filter (\<lambda>r. m_id r \<noteq> item_id) (menu_items d),
               order_items :=
                 map (\<lambda>r. if menu_item_id r = Some item_id then r\<lparr>menu_item_id := None\<rparr> else r)
                   (order_items d)\<rparr>"
  from assms(3) have id: "m_id item = item_id"
    using find_Some_set [of "\<lambda>m. m_id m = item_id" "menu_items d" item]
    by (simp add: find_menu_item_def)
  have res: "delete_menu_item d auth item_id = Inr (RedirectResponse ''/restaurant/menu'', ?d')"
    using assms id by (simp add: delete_menu_item_def)
  have gone: "find_menu_item ?d' item_id = None"
    by (simp add: find_menu_item_def find_None_set)
  have ids: "map oi_id (order_items ?d') = map oi_id (order_items d)"
    and ords: "map order_id (order_items ?d') = map order_id (order_items d)"
    and qs: "map quantity (order_items ?d') = map quantity (order_items d)"
    by (simp_all add: map_detach)
  have none: "\<forall>r\<in>set (order_items ?d'). menu_item_id r \<noteq> Some item_id"
    by auto
  show ?thesis
  proof (intro exI conjI)
    show "delete_menu_item d auth item_id = Inr (RedirectResponse ''/restaurant/menu'', ?d')"
      by (rule res)
    show "find_menu_item ?d' item_id = None" by (rule gone)
    show "order_items ?d' =
           map (\<lambda>r. if menu_item_id r = Some item_id then r\<lparr>menu_item_id := None\<rparr> else r)
             (order_items d)"
      by simp
    show "map oi_id (order_items ?d') = map oi_id (order_items d)" by (rule ids)
    show "map order_id (order_items ?d') = map order_id (order_items d)" by (rule ords)
    show "map quantity (order_items ?d') = map quantity (order_items d)" by (rule qs)
    show "\<forall>r\<in>set (order_items ?d'). menu_item_id r \<noteq> Some item_id" by (rule none)
    show "users ?d' = users d" by simp
    show "orders ?d' = orders d" by simp
    show "menu_settings ?d' = menu_settings d" by simp
  qed
qed

text \<open>
  C8 as stated fails in its last part: after the restaurant account deletes item 1 of
  the sample state, the order line that referred to item 1 is still stored, with NULL in
  place of the id.
\<close>

theorem delete_menu_item_example:
  "order_items example_db = [\<lparr>oi_id = 1, order_id = 1, menu_item_id = Some 1, quantity = 2\<rparr>]
   \<and> order_items (committed example_db (delete_menu_item example_db (Some 1) 1)) =
       [\<lparr>oi_id = 1, order_id = 1, menu_item_id = None, quantity = 2\<rparr>]"
  by code_simp

theorem delete_menu_item_detaches_witness:
  "\<exists>d'. delete_menu_item example_db (Some 1) 1 = Inr (RedirectResponse ''/restaurant/menu'', d')
       \<and> find_menu_item d' 1 = None
       \<and> order_items d' = [\<lparr>oi_id = 1, order_id = 1, menu_item_id = None, quantity = 2\<rparr>]
       \<and> map oi_id (order_items d') = [1]
       \<and> map order_id (order_items d') = [1]
       \<and> map quantity (order_items d') = [2]
       \<and> (\<forall>r\<in>set (order_items d'). menu_item_id r \<noteq> Some 1)
       \<and> users d' = users example_db \<and> orders d' = orders example_db
       \<and> menu_settings d' = menu_settings example_db"
proof -
  have r: "is_restaurant restaurant_row" by (simp add: restaurant_row_def)
  have o: "order_items example_db =
      [\<lparr>oi_id = 1, order_id = 1, menu_item_id = Some 1, quantity = 2\<rparr>]"
    by (simp add: example_db_def)
  show ?thesis
    using delete_menu_item_detaches [OF example_restaurant r example_items(1)]
    by (simp add: o)
qed

subsection \<open>The order history\<close>

lemma items_with_details_fault: "items_with_details d lines = Inl e \<Longrightarrow> e = AttributeError"
  by (induction lines arbitrary: e) (auto split: option.splits sum.splits)

lemma items_with_details_lines:
  "items_with_details d lines = Inr details \<Longrightarrow>
     list_all2 (\<lambda>dt i. \<exists>m. menu_item_of d i = Some m \<and> dt = shown_line m i) details lines"
  by (induction lines arbitrary: details) (auto simp: shown_line_def split: option.splits sum.splits)

lemma items_with_details_total:
  "\<forall>i\<in>set lines. menu_item_of d i \<noteq> None \<Longrightarrow> \<exists>details. items_with_details d lines = Inr details"
  by (induction lines) (auto split: option.splits sum.splits)

lemma items_with_details_dangling:
  assumes "i \<in> set lines" and "menu_item_of d i = None"
  shows "items_with_details d lines = Inl AttributeError"
proof (cases "items_with_details d lines")
  case (Inl e)
  then show ?thesis using items_with_details_fault by blast
next
  case (Inr details)
  then have "list_all2 (\<lambda>dt i. \<exists>m. menu_item_of d i = Some m \<and> dt = shown_line m i) details lines"
    by (rule items_with_details_lines)
  then have "\<forall>i\<in>set lines. \<exists>m. menu_item_of d i = Some m"
    by (induction rule: list_all2_induct) auto
  with assms show ?thesis by auto
qed

lemma orders_with_details_fault: "orders_with_details d rs = Inl e \<Longrightarrow> e = AttributeError"
  by (induction rs arbitrary: e) (auto split: sum.splits dest: items_with_details_fault)

lemma orders_with_details_shown:
  "orders_with_details d rs = Inr shown \<Longrightarrow>
     map fst shown = rs \<and> (\<forall>(r, details)\<in>set shown. items_with_details d (items d r) = Inr details)"
  by (induction rs arbitrary: shown) (auto split: sum.splits)

lemma orders_with_details_total:
  "\<forall>r\<in>set rs. \<forall>i\<in>set (items d r). menu_item_of d i \<noteq> None \<Longrightarrow>
     \<exists>shown. orders_with_details d rs = Inr shown"
proof (induction rs)
  case Nil
  then show ?case by simp
next
  case (Cons r rs)
  then obtain details where "items_with_details d (items d r) = Inr details"
    using items_with_details_total [of "items d r" d] by auto
  moreover from Cons obtain shown where "orders_with_details d rs = Inr shown" by auto
  ultimately show ?case by simp
qed

lemma orders_with_details_dangling:
  assumes "r \<in> set rs" and "i \<in> set (items d r)" and "menu_item_of d i = None"
  shows "orders_with_details d rs = Inl AttributeError"
proof (cases "orders_with_details d rs")
  case (Inl e)
  then show ?thesis using orders_with_details_fault by blast
next
  case (Inr shown)
  then have m: "map fst shown = rs"
    and a: "\<forall>(r, details)\<in>set shown. items_with_details d (items d r) = Inr details"
    using orders_with_details_shown by blast+
  from m assms(1) obtain details where "(r, details) \<in> set shown"
    by force
  with a have "items_with_details d (items d r) = Inr details" by auto
  with items_with_details_dangling [OF assms(2,3)] show ?thesis by simp
qed

lemma set_history:
  "set (history d u) = {r \<in> set (orders d). user_id r = Some (u_id u)}"
  by (simp add: history_def order_by_date_desc_def)

lemma customer_orders_history:
  "get_current_user d auth = Some u \<Longrightarrow>
     customer_orders d auth =
       (case orders_with_details d (history d u) of
          Inl e \<Rightarrow> Inl e
        | Inr shown \<Rightarrow> Inr (TemplateResponse ''customer_orders.html'' (OrdersView u shown), d))"
  by (simp add: customer_orders_def history_def)

text \<open>
  C4. For an authenticated caller, whenever the history is rendered it lists the
  caller's orders, and every line shown for an order carries the name and the price of
  the menu item that the line resolves to in the database at view time and, as
  subtotal, that price times the line's stored quantity; the order's stored
  \<^verbatim>\<open>total_price\<close> is not used. The history is rendered when every line of every
  order of the caller resolves. The subtotals can differ from the stored total: in the
  reachable state \<open>repriced\<close> the customer's order of two items has the stored total
  160 and the subtotal 200.
\<close>

theorem history_subtotals:
  assumes "get_current_user d auth = Some u"
  shows "(\<forall>resp d'. customer_orders d auth = Inr (resp, d') \<longrightarrow>
            (\<exists>shown. resp = TemplateResponse ''customer_orders.html'' (OrdersView u shown)
               \<and> d' = d \<and> map fst shown = history d u
               \<and> (\<forall>(r, details)\<in>set shown.
                     list_all2 (\<lambda>dt i. \<exists>m. menu_item_of d i = Some m \<and> dt = shown_line m i)
                       details (items d r))))
       \<and> ((\<forall>r\<in>set (history d u). \<forall>i\<in>set (items d r). menu_item_of d i \<noteq> None) \<longrightarrow>
            (\<exists>shown. customer_orders d auth =
                        Inr (TemplateResponse ''customer_orders.html'' (OrdersView u shown), d)))
       \<and> (\<exists>w a c r details.
             reachable w \<and> a \<in> set (issued w) \<and> get_current_user (store w) a = Some c
             \<and> customer_orders (store w) a =
                 Inr (TemplateResponse ''customer_orders.html'' (OrdersView c [(r, details)]), store w)
             \<and> sum_list (map subtotal details) \<noteq> total_price r)"
proof (intro conjI allI impI)
  fix resp d'
  assume "customer_orders d auth = Inr (resp, d')"
  with assms obtain shown where s: "orders_with_details d (history d u) = Inr shown"
    and r: "resp = TemplateResponse ''customer_orders.html'' (OrdersView u shown)" and d: "d' = d"
    by (auto simp: customer_orders_history split: sum.splits)
  from orders_with_details_shown [OF s]
  have "map fst shown = history d u"
    and "\<forall>(r, details)\<in>set shown. items_with_details d (items d r) = Inr details"
    by blast+
  then have "\<forall>(r, details)\<in>set shown.
      list_all2 (\<lambda>dt i. \<exists>m. menu_item_of d i = Some m \<and> dt = shown_line m i) details (items d r)"
    using items_with_details_lines by fastforce
  with r d \<open>map fst shown = history d u\<close>
  show "\<exists>shown. resp = TemplateResponse ''customer_orders.html'' (OrdersView u shown)
               \<and> d' = d \<and> map fst shown = history d u
               \<and> (\<forall>(r, details)\<in>set shown.
                     list_all2 (\<lambda>dt i. \<exists>m. menu_item_of d i = Some m \<and> dt = shown_line m i)
                       details (items d r))"
    by blast
next
  assume "\<forall>r\<in>set (history d u). \<forall>i\<in>set (items d r). menu_item_of d i \<noteq> None"
  then obtain shown where "orders_with_details d (history d u) = Inr shown"
    using orders_with_details_total by blast
  with assms show "\<exists>shown. customer_orders d auth =
      Inr (TemplateResponse ''customer_orders.html'' (OrdersView u shown), d)"
    by (simp add: customer_orders_history)
next
  let ?c = "\<lparr>u_id = 2, username = ''customer'', password = ''customer'', is_restaurant = False\<rparr>"
  let ?r = "\<lparr>o_id = 1, user_id = Some 2, order_date = ''2024-01-02 09:00:00'', total_price = 160\<rparr>"
  let ?details = "[\<lparr>line_name = ''burger'', line_price = 100, line_quantity = 2, subtotal = 200\<rparr>]"
  have "Some 2 \<in> set (issued repriced)" by code_simp
  moreover have "get_current_user (store repriced) (Some 2) = Some ?c" by code_simp
  moreover have "customer_orders (store repriced) (Some 2) =
      Inr (TemplateResponse ''customer_orders.html'' (OrdersView ?c [(?r, ?details)]), store repriced)"
    by code_simp
  moreover have "sum_list (map subtotal ?details) \<noteq> total_price ?r" by simp
  ultimately show "\<exists>w a c r details.
             reachable w \<and> a \<in> set (issued w) \<and> get_current_user (store w) a = Some c
             \<and> customer_orders (store w) a =
                 Inr (TemplateResponse ''customer_orders.html'' (OrdersView c [(r, details)]), store w)
             \<and> sum_list (map subtotal details) \<noteq> total_price r"
    using reachable_repriced by blast
qed

theorem history_subtotals_witness:
  "get_current_user example_db (Some 2) = Some customer_row
   \<and> (\<exists>shown. customer_orders example_db (Some 2) =
                 Inr (TemplateResponse ''customer_orders.html'' (OrdersView customer_row shown),
                      example_db)
         \<and> map fst shown = history example_db customer_row)"
proof -
  note h = history_subtotals [OF example_customer]
  have "\<forall>r\<in>set (history example_db customer_row).
          \<forall>i\<in>set (items example_db r). menu_item_of example_db i \<noteq> None"
    by code_simp
  with h [THEN conjunct2, THEN conjunct1]
  obtain shown where s: "customer_orders example_db (Some 2) =
      Inr (TemplateResponse ''customer_orders.html'' (OrdersView customer_row shown), example_db)"
    by blast
  with h [THEN conjunct1]
  have "map fst shown = history example_db customer_row"
    by auto
  with s example_customer show ?thesis by simp
qed

text \<open>
  C9. Whenever an authenticated caller owns an order with a line whose menu item lookup
  finds no row, the order history is not rendered: the handler faults with
  AttributeError. Such a state is reachable: in the reachable state \<open>ordered\<close> the
  customer's history is rendered; the restaurant account then deletes the ordered menu
  item, and in the state after that, which is reachable, the same request of the same
  customer faults.
\<close>

theorem history_faults:
  "(get_current_user d auth = Some u \<and> r \<in> set (orders d) \<and> user_id r = Some (u_id u)
      \<and> i \<in> set (items d r) \<and> menu_item_of d i = None
      \<longrightarrow> customer_orders d auth = Inl AttributeError)
   \<and> (\<exists>w w' a admin c item_id shown.
         reachable w \<and> a \<in> set (issued w) \<and> admin \<in> set (issued w)
         \<and> get_current_user (store w) a = Some c
         \<and> customer_orders (store w) a =
             Inr (TemplateResponse ''customer_orders.html'' (OrdersView c shown), store w)
         \<and> delete_menu_item (store w) admin item_id =
             Inr (RedirectResponse ''/restaurant/menu'', store w')
         \<and> reachable w' \<and> a \<in> set (issued w')
         \<and> get_current_user (store w') a = Some c
         \<and> customer_orders (store w') a = Inl AttributeError)"
proof (rule conjI)
  show "get_current_user d auth = Some u \<and> r \<in> set (orders d) \<and> user_id r = Some (u_id u)
      \<and> i \<in> set (items d r) \<and> menu_item_of d i = None
      \<longrightarrow> customer_orders d auth = Inl AttributeError"
  proof
    assume a: "get_current_user d auth = Some u \<and> r \<in> set (orders d) \<and> user_id r = Some (u_id u)
      \<and> i \<in> set (items d r) \<and> menu_item_of d i = None"
    then have "r \<in> set (history d u)" by (simp add: set_history)
    with a have "orders_with_details d (history d u) = Inl AttributeError"
      using orders_with_details_dangling by blast
    with a show "customer_orders d auth = Inl AttributeError"
      by (simp add: customer_orders_history)
  qed
next
  have c: "get_current_user (store ordered) (Some 2) = Some customer_row" by code_simp
  have "\<forall>r\<in>set (history (store ordered) customer_row).
          \<forall>i\<in>set (items (store ordered) r). menu_item_of (store ordered) i \<noteq> None"
    by code_simp
  then obtain shown where "orders_with_details (store ordered) (history (store ordered) customer_row)
      = Inr shown"
    using orders_with_details_total by blast
  with c have before: "customer_orders (store ordered) (Some 2) =
      Inr (TemplateResponse ''customer_orders.html'' (OrdersView customer_row shown), store ordered)"
    by (simp add: customer_orders_history)
  show "\<exists>w w' a admin c item_id shown.
         reachable w \<and> a \<in> set (issued w) \<and> admin \<in> set (issued w)
         \<and> get_current_user (store w) a = Some c
         \<and> customer_orders (store w) a =
             Inr (TemplateResponse ''customer_orders.html'' (OrdersView c shown), store w)
         \<and> delete_menu_item (store w) admin item_id =
             Inr (RedirectResponse ''/restaurant/menu'', store w')
         \<and> reachable w' \<and> a \<in> set (issued w')
         \<and> get_current_user (store w') a = Some c
         \<and> customer_orders (store w') a = Inl AttributeError"
  proof (intro exI conjI)
    show "reachable ordered" by (rule reachable_ordered)
    show "Some 2 \<in> set (issued ordered)" by code_simp
    show "Some 1 \<in> set (issued ordered)" by code_simp
    show "get_current_user (store ordered) (Some 2) = Some customer_row" by (rule c)
    show "customer_orders (store ordered) (Some 2) =
      Inr (TemplateResponse ''customer_orders.html'' (OrdersView customer_row shown), store ordered)"
      by (rule before)
    show "delete_menu_item (store ordered) (Some 1) 1 =
      Inr (RedirectResponse ''/restaurant/menu'', store deleted)"
      by code_simp
    show "reachable deleted" by (rule reachable_deleted)
    show "Some 2 \<in> set (issued deleted)" by code_simp
    show "get_current_user (store deleted) (Some 2) = Some customer_row" by code_simp
    show "customer_orders (store deleted) (Some 2) = Inl AttributeError" by code_simp
  qed
qed

theorem history_faults_witness:
  "get_current_user (store deleted) (Some 2) = Some customer_row
   \<and> menu_item_of (store deleted) \<lparr>oi_id = 1, order_id = 1, menu_item_id = None, quantity = 2\<rparr> = None
   \<and> customer_orders (store deleted) (Some 2) = Inl AttributeError"
proof -
  let ?r = "\<lparr>o_id = 1, user_id = Some 2, order_date = ''2024-01-02 09:00:00'', total_price = 160\<rparr>"
  let ?i = "\<lparr>oi_id = 1, order_id = 1, menu_item_id = None, quantity = 2\<rparr>"
  have c: "get_current_user (store deleted) (Some 2) = Some customer_row" by code_simp
  have r: "?r \<in> set (orders (store deleted))" by code_simp
  have u: "user_id ?r = Some (u_id customer_row)" by code_simp
  have i: "?i \<in> set (items (store deleted) ?r)" by code_simp
  have m: "menu_item_of (store deleted) ?i = None" by (simp add: menu_item_of_def)
  have "customer_orders (store deleted) (Some 2) = Inl AttributeError"
    using history_faults [where d = "store deleted" and auth = "Some 2"
        and u = customer_row and r = ?r and i = ?i, THEN conjunct1] c r u i m
    by simp
  with c m show ?thesis by simp
qed

subsection \<open>Unique usernames\<close>

lemma insert_user_unique:
  "insert_user d n p f = Inr (u, d') \<Longrightarrow> unique_usernames d \<Longrightarrow> unique_usernames d'"
  by (auto simp: insert_user_def unique_usernames_def Let_def split: if_splits)

lemma insert_user_duplicate:
  "n \<in> set (map username (users d)) \<Longrightarrow> insert_user d n p f = Inl IntegrityError"
  by (simp add: insert_user_def)

lemma add_all_users: "users (add_all d ms) = users d"
  by (induction d ms rule: add_all.induct) (simp_all add: insert_menu_item_def)

lemma init_db_unique:
  assumes "init_db d = Inr d'" and "unique_usernames d"
  shows "unique_usernames d'"
proof (cases "find is_restaurant (users d)")
  case (Some r)
  with assms show ?thesis by (simp add: init_db_def)
next
  case None
  with assms(1) obtain u1 d1 u2 d2 where
    one: "insert_user d ''restaurant'' ''restaurant'' True = Inr (u1, d1)"
    and two: "insert_user d1 ''customer'' ''customer'' False = Inr (u2, d2)"
    and d': "d' = snd (insert_menu_setting (add_all d2 seed_menu))"
    by (auto simp: init_db_def split: sum.splits)
  from insert_user_unique [OF one assms(2)] have "unique_usernames d1" .
  from insert_user_unique [OF two this] have "unique_usernames d2" .
  then show ?thesis
    by (simp add: d' insert_menu_setting_def Let_def unique_usernames_def add_all_users)
qed

lemma login_unique:
  assumes "login d auth n p hint = Inr (resp, d', auth')" and "unique_usernames d"
  shows "unique_usernames d'"
  using assms
  by (auto simp: login_def logged_in_def Let_def split: if_splits sum.splits option.splits
      dest: insert_user_unique)

lemma login_no_fault: "login d auth n p hint \<noteq> Inl e"
proof (cases "find_user_by_name d n")
  case None
  then have "n \<notin> set (map username (users d))"
    by (auto simp: find_user_by_name_def find_None_set)
  with None show ?thesis
    by (simp add: login_def insert_user_def Let_def)
next
  case (Some u)
  then show ?thesis by (simp add: login_def Let_def)
qed

lemma login_signup_only:
  assumes "login d auth n p hint = Inr (resp, d', auth')" and "users d' \<noteq> users d"
  shows "find_user_by_name d n = None"
  using assms
  by (auto simp: login_def logged_in_def Let_def split: if_splits sum.splits option.splits)

lemma add_user_unique:
  assumes "add_user d auth n p f = Inr (resp, d')" and "unique_usernames d"
  shows "unique_usernames d'"
  using assms
  by (auto simp: add_user_def Let_def split: if_splits sum.splits option.splits
      dest: insert_user_unique)

lemma update_user_usernames:
  "update_user d auth i p c = Inr (resp, d') \<Longrightarrow> map username (users d') = map username (users d)"
  by (auto simp: update_user_def map_detach simp del: map_map split: if_splits option.splits)

lemma update_user_unique:
  assumes "update_user d auth i p c = Inr (resp, d')" and "unique_usernames d"
  shows "unique_usernames d'"
  using assms(2) update_user_usernames [OF assms(1)] by (simp add: unique_usernames_def)

lemma delete_user_unique:
  assumes "delete_user d auth i = Inr (resp, d')" and "unique_usernames d"
  shows "unique_usernames d'"
  using assms
  by (auto simp: delete_user_def unique_usernames_def distinct_map_filter
      split: if_splits option.splits)

lemma get_menu_settings_users: "users (snd (get_menu_settings d)) = users d"
  by (simp add: get_menu_settings_def insert_menu_setting_def Let_def split: list.splits)

lemma menu_handlers_users:
  "restaurant_menu d auth = Inr (resp, d') \<Longrightarrow> users d' = users d"
  "customer_menu d auth = Inr (resp, d') \<Longrightarrow> users d' = users d"
  "upload_full_menu_image d auth now img = Inr (resp, d') \<Longrightarrow> users d' = users d"
  using get_menu_settings_users [of d]
  by (auto simp: restaurant_menu_def customer_menu_def upload_full_menu_image_def
      split: if_splits option.splits prod.splits)

lemma item_handlers_users:
  "add_menu_item d auth now n p ds img' = Inr (resp, d') \<Longrightarrow> users d' = users d"
  "update_menu_item d auth i n p ds = Inr (resp, d') \<Longrightarrow> users d' = users d"
  "upload_menu_item_image d auth now i img = Inr (resp, d') \<Longrightarrow> users d' = users d"
  "delete_menu_item d auth i = Inr (resp, d') \<Longrightarrow> users d' = users d"
  by (auto simp: add_menu_item_def update_menu_item_def upload_menu_item_image_def
      delete_menu_item_def insert_menu_item_def Let_def split: if_splits option.splits)

lemma read_handlers_users:
  "restaurant_dashboard d auth = Inr (resp, d') \<Longrightarrow> users d' = users d"
  "restaurant_users d auth = Inr (resp, d') \<Longrightarrow> users d' = users d"
  "customer_orders d auth = Inr (resp, d') \<Longrightarrow> users d' = users d"
  by (auto simp: restaurant_dashboard_def restaurant_users_def customer_orders_def
      split: if_splits option.splits sum.splits)

lemma place_order_users:
  "place_order d auth now form_data = Inr (resp, d') \<Longrightarrow> users d' = users d"
  by (auto simp: place_order_def insert_order_def Let_def add_order_items_tables
      split: if_splits option.splits sum.splits)

lemma keeping_Inr:
  "keeping auth r = Inr (resp, d', auth') \<Longrightarrow> r = Inr (resp, d') \<and> auth' = auth"
  by (auto simp: keeping_def split: sum.splits)

lemma handle_unique:
  assumes "handle d auth now req = Inr (resp, d', auth')" and "unique_usernames d"
  shows "unique_usernames d'"
proof (cases req)
  case (Login n p hint)
  with assms show ?thesis using login_unique by simp
next
  case (AddUser n p f)
  with assms show ?thesis using add_user_unique by (auto dest!: keeping_Inr)
next
  case (UpdateUser i p c)
  with assms show ?thesis using update_user_unique by (auto dest!: keeping_Inr)
next
  case (DeleteUser i)
  with assms show ?thesis using delete_user_unique by (auto dest!: keeping_Inr)
next
  case Root
  with assms show ?thesis by simp
next
  case Logout
  with assms show ?thesis by (simp add: logout_def)
next
  case RestaurantDashboard
  with assms show ?thesis
    by (auto simp: unique_usernames_def dest!: keeping_Inr read_handlers_users)
next
  case RestaurantUsers
  with assms show ?thesis
    by (auto simp: unique_usernames_def dest!: keeping_Inr read_handlers_users)
next
  case RestaurantMenu
  with assms show ?thesis
    by (auto simp: unique_usernames_def dest!: keeping_Inr menu_handlers_users)
next
  case (AddMenuItem n p ds img)
  with assms show ?thesis
    by (auto simp: unique_usernames_def dest!: keeping_Inr item_handlers_users)
next
  case (UpdateMenuItem i n p ds)
  with assms show ?thesis
    by (auto simp: unique_usernames_def dest!: keeping_Inr item_handlers_users)
next
  case (UploadMenuItemImage i img)
  with assms show ?thesis
    by (auto simp: unique_usernames_def dest!: keeping_Inr item_handlers_users)
next
  case (UploadFullMenuImage img)
  with assms show ?thesis
    by (auto simp: unique_usernames_def dest!: keeping_Inr menu_handlers_users)
next
  case (DeleteMenuItem i)
  with assms show ?thesis
    by (auto simp: unique_usernames_def dest!: keeping_Inr item_handlers_users)
next
  case CustomerMenu
  with assms show ?thesis
    by (auto simp: unique_usernames_def dest!: keeping_Inr menu_handlers_users)
next
  case (PlaceOrder form_data)
  with assms show ?thesis
    by (auto simp: unique_usernames_def dest!: keeping_Inr place_order_users)
next
  case CustomerOrders
  with assms show ?thesis
    by (auto simp: unique_usernames_def dest!: keeping_Inr read_handlers_users)
qed

lemma reachable_unique: "reachable w \<Longrightarrow> unique_usernames (store w)"
proof (induction rule: reachable.induct)
  case (start d)
  have "unique_usernames empty_db" by (simp add: unique_usernames_def empty_db_def)
  with start show ?case using init_db_unique by simp
next
  case (restart w d)
  then show ?case using init_db_unique by simp
next
  case (request w auth now req resp d auth')
  then show ?case using handle_unique by simp
qed

text \<open>
  C10. In every reachable state the usernames of the user rows are pairwise distinct.
  A login never faults, and it changes the user table only when the lookup of the
  username found no row. An add-user request of a restaurant account with a username
  that a row already carries is answered with the unhandled IntegrityError of the
  storage and stores nothing: no handled error, no second row.
\<close>

theorem usernames_distinct:
  assumes "reachable w"
  shows "distinct (map username (users (store w)))
       \<and> (\<forall>auth n p hint e. login (store w) auth n p hint \<noteq> Inl e)
       \<and> (\<forall>auth n p hint resp d' auth'.
             login (store w) auth n p hint = Inr (resp, d', auth') \<and> users d' \<noteq> users (store w)
             \<longrightarrow> find_user_by_name (store w) n = None)
       \<and> (\<forall>auth admin n p f.
             get_current_user (store w) auth = Some admin \<and> is_restaurant admin
             \<and> n \<in> set (map username (users (store w)))
             \<longrightarrow> add_user (store w) auth n p f = Inl IntegrityError
                 \<and> committed (store w) (add_user (store w) auth n p f) = store w)"
proof (intro conjI allI impI)
  from reachable_unique [OF assms]
  show "distinct (map username (users (store w)))"
    by (simp add: unique_usernames_def)
next
  fix auth n p hint e
  show "login (store w) auth n p hint \<noteq> Inl e" by (rule login_no_fault)
next
  fix auth n p hint resp d' auth'
  assume "login (store w) auth n p hint = Inr (resp, d', auth') \<and> users d' \<noteq> users (store w)"
  then show "find_user_by_name (store w) n = None"
    using login_signup_only by blast
next
  fix auth admin n p f
  assume a: "get_current_user (store w) auth = Some admin \<and> is_restaurant admin
             \<and> n \<in> set (map username (users (store w)))"
  then have "insert_user (store w) n p (lower f = ''true'') = Inl IntegrityError"
    using insert_user_duplicate by blast
  with a show f: "add_user (store w) auth n p f = Inl IntegrityError"
    by (simp add: add_user_def Let_def)
  then show "committed (store w) (add_user (store w) auth n p f) = store w"
    by (simp add: committed_def)
qed

theorem usernames_distinct_witness:
  "reachable first_start
   \<and> map username (users (store first_start)) = [''restaurant'', ''customer'']
   \<and> distinct (map username (users (store first_start)))
   \<and> add_user (store first_start) (Some 1) ''customer'' ''secret'' ''false'' = Inl IntegrityError"
proof -
  have n: "map username (users (store first_start)) = [''restaurant'', ''customer'']"
    by code_simp
  have a: "get_current_user (store first_start) (Some 1) = Some restaurant_row" by code_simp
  have r: "is_restaurant restaurant_row" by (simp add: restaurant_row_def)
  have m: "''customer'' \<in> set (map username (users (store first_start)))"
    by (simp add: n)
  note t = usernames_distinct [OF reachable_first_start]
  from t have d: "distinct (map username (users (store first_start)))"
    by (rule conjunct1)
  have "add_user (store first_start) (Some 1) ''customer'' ''secret'' ''false'' =
      Inl IntegrityError"
    using t [THEN conjunct2, THEN conjunct2, THEN conjunct2, rule_format,
        of "Some 1" restaurant_row "''customer''" "''secret''" "''false''"] a r m
    by simp
  with reachable_first_start n d show ?thesis by (intro conjI)
qed

end
